theory Spec2Isabelle
  imports Complex_Main "HOL-Library.Sublist"
begin

section \<open>Text\<close>

text \<open>
  A Python \<open>str\<close> is a sequence of Unicode code points. The keyword tables of the engine
  hold Persian and English phrases, so a text is a list of code points; \<open>asc\<close> turns an
  ASCII literal into one.
\<close>

type_synonym str = "nat list"

definition asc :: "string \<Rightarrow> str" where
  "asc s = map of_char s"

text \<open>\<open>py_in kw s\<close> is Python's \<open>kw in s\<close> on strings: \<open>kw\<close> occurs in \<open>s\<close> at some offset.\<close>

fun py_in :: "str \<Rightarrow> str \<Rightarrow> bool" where
  "py_in kw [] = (kw = [])"
| "py_in kw (c # cs) = (prefix kw (c # cs) \<or> py_in kw cs)"

text \<open>
  \<open>str.lower\<close> follows the Unicode case tables, which are not part of the repository: the
  functions that call it take it as the parameter \<open>lower\<close>. On a text of ASCII code points
  it is \<open>ascii_lower\<close>, which the concrete evaluations below use.
\<close>

definition ascii_lower :: "str \<Rightarrow> str" where
  "ascii_lower s = map (\<lambda>c. if 65 \<le> c \<and> c \<le> 90 then c + 32 else c) s"

section \<open>Enumerations\<close>

datatype AIModel = GPT4 | GPT35_TURBO | GEMINI_PRO | CLAUDE | LLAMA2 | T5

fun AIModel_value :: "AIModel \<Rightarrow> str" where
  "AIModel_value GPT4 = asc ''gpt-4''"
| "AIModel_value GPT35_TURBO = asc ''gpt-3.5-turbo''"
| "AIModel_value GEMINI_PRO = asc ''gemini-pro''"
| "AIModel_value CLAUDE = asc ''claude-3''"
| "AIModel_value LLAMA2 = asc ''llama-2-70b''"
| "AIModel_value T5 = asc ''t5-large''"

datatype TaskType =
    CONVERSATION | CONTENT_GENERATION | FINANCIAL_ADVICE | PSYCHOLOGICAL_SUPPORT
  | CREATIVE_WRITING | TECHNICAL_ANALYSIS | TRANSLATION | RESEARCH | MEDITATION
  | COMPANIONSHIP

fun TaskType_value :: "TaskType \<Rightarrow> str" where
  "TaskType_value CONVERSATION = asc ''conversation''"
| "TaskType_value CONTENT_GENERATION = asc ''content_generation''"
| "TaskType_value FINANCIAL_ADVICE = asc ''financial_advice''"
| "TaskType_value PSYCHOLOGICAL_SUPPORT = asc ''psychological_support''"
| "TaskType_value CREATIVE_WRITING = asc ''creative_writing''"
| "TaskType_value TECHNICAL_ANALYSIS = asc ''technical_analysis''"
| "TaskType_value TRANSLATION = asc ''translation''"
| "TaskType_value RESEARCH = asc ''research''"
| "TaskType_value MEDITATION = asc ''meditation''"
| "TaskType_value COMPANIONSHIP = asc ''companionship''"

section \<open>Python's \<open>max\<close> with a key\<close>

text \<open>
  \<open>max(xs, key=f)\<close> walks \<open>xs\<close> from the left and replaces the element it holds only by one
  whose key is strictly greater, so among equal keys the leftmost wins; on an empty
  sequence it raises \<open>ValueError\<close>, here \<open>None\<close>.
\<close>

fun max_from :: "('a \<Rightarrow> 'k::linorder) \<Rightarrow> 'a \<Rightarrow> 'a list \<Rightarrow> 'a" where
  "max_from f best [] = best"
| "max_from f best (x # xs) = max_from f (if f best < f x then x else best) xs"

fun py_max :: "('a \<Rightarrow> 'k::linorder) \<Rightarrow> 'a list \<Rightarrow> 'a option" where
  "py_max f [] = None"
| "py_max f (x # xs) = Some (max_from f x xs)"

section \<open>Task classification\<close>

text \<open>
  \<open>task_keywords\<close> of \<open>_detect_task_type\<close>: a dict literal, so an association list in the
  order the literal is written. Each Persian phrase is given by its code points
  (8204 is the zero-width non-joiner).
\<close>

definition task_keywords :: "(TaskType \<times> str list) list" where
  "task_keywords = [
    (FINANCIAL_ADVICE, [
      [1587, 1607, 1575, 1605],
      [1576, 1608, 1585, 1587],
      [1575, 1585, 1586],
      [1576, 1740, 1578, 32, 1705, 1608, 1740, 1606],
      [1578, 1585, 1740, 1583, 1740, 1606, 1711],
      [1587, 1585, 1605, 1575, 1740, 1607, 8204, 1711, 1584, 1575, 1585, 1740],
      asc ''stock'', asc ''crypto'', asc ''bitcoin'', asc ''trading'', asc ''investment'']),
    (PSYCHOLOGICAL_SUPPORT, [
      [1594, 1605, 1711, 1740, 1606],
      [1575, 1587, 1578, 1585, 1587],
      [1575, 1590, 1591, 1585, 1575, 1576],
      [1605, 1588, 1705, 1604],
      [1606, 1711, 1585, 1575, 1606],
      [1575, 1601, 1587, 1585, 1583, 1607],
      asc ''sad'', asc ''stress'', asc ''anxiety'', asc ''worried'', asc ''depressed'',
      asc ''help me'']),
    (CREATIVE_WRITING, [
      [1583, 1575, 1587, 1578, 1575, 1606],
      [1588, 1593, 1585],
      [1606, 1608, 1588, 1578, 1606],
      [1582, 1604, 1575, 1602, 1740, 1578],
      [1605, 1578, 1606],
      asc ''story'', asc ''poem'', asc ''write'', asc ''creative'', asc ''content'']),
    (TRANSLATION, [
      [1578, 1585, 1580, 1605, 1607],
      asc ''translate'',
      [1605, 1593, 1606, 1740],
      asc ''meaning'']),
    (MEDITATION, [
      [1570, 1585, 1575, 1605, 1588],
      [1605, 1583, 1740, 1578, 1740, 1588, 1606],
      [1578, 1606, 1601, 1587],
      [1570, 1585, 1575, 1605],
      [1575, 1587, 1578, 1585, 1575, 1581, 1578],
      asc ''meditation'', asc ''relax'', asc ''calm'', asc ''peace'', asc ''breathe'']),
    (RESEARCH, [
      [1578, 1581, 1602, 1740, 1602],
      [1580, 1587, 1578, 1580, 1608],
      [1575, 1591, 1604, 1575, 1593, 1575, 1578],
      [1740, 1575, 1583, 32, 1576, 1711, 1740, 1585],
      [1576, 1711, 1608],
      asc ''research'', asc ''search'', asc ''information'', asc ''learn'', asc ''tell me''])]"

text \<open>\<open>sum(1 for keyword in keywords if keyword in input_lower)\<close>.\<close>

definition keyword_score :: "str list \<Rightarrow> str \<Rightarrow> nat" where
  "keyword_score keywords input_lower =
     sum_list (map (\<lambda>keyword. 1) (filter (\<lambda>keyword. py_in keyword input_lower) keywords))"

text \<open>
  The dict \<open>task_scores\<close>: the loop visits \<open>task_keywords\<close> in order and stores a category
  only when its score is positive.
\<close>

definition task_scores :: "str \<Rightarrow> (TaskType \<times> nat) list" where
  "task_scores input_lower =
     filter (\<lambda>(task_type, score). score > 0)
       (map (\<lambda>(task_type, keywords). (task_type, keyword_score keywords input_lower))
          task_keywords)"

definition detect_task_type :: "(str \<Rightarrow> str) \<Rightarrow> str \<Rightarrow> TaskType" where
  "detect_task_type lower user_input =
     (let input_lower = lower user_input in
      case py_max snd (task_scores input_lower) of
        Some (task_type, score) \<Rightarrow> task_type
      | None \<Rightarrow> CONVERSATION)"

section \<open>Model registry and selection\<close>

text \<open>
  One registry entry, the dict stored under a model in \<open>self.models\<close>. The \<open>client\<close> handle
  is left out: dispatch chooses the service from the model alone. A performance score is
  a Python float that is only ever compared; the scores are modelled as reals, whose
  order is the order of floats other than NaN.
\<close>

record model_info =
  available :: bool
  specialties :: "TaskType list"
  performance_score :: real

type_synonym registry = "(AIModel \<times> model_info) list"

text \<open>
  \<open>_initialize_models\<close>: the dict starts empty and every model is stored once, so the
  registry is the list of insertions in order. The two arguments say whether
  \<open>settings.openai_api_key\<close> is set and whether \<open>settings\<close> has a \<open>google_api_key\<close> that
  is set. The settings class of \<open>config/settings.py\<close> declares no \<open>google_api_key\<close>, so
  the second is false for every engine the repository builds.
\<close>

definition initialize_models :: "bool \<Rightarrow> bool \<Rightarrow> registry" where
  "initialize_models openai_api_key google_api_key =
     (if openai_api_key then
        [(GPT4, \<lparr>available = True,
                 specialties = [CONVERSATION, CONTENT_GENERATION, RESEARCH],
                 performance_score = 0.95\<rparr>),
         (GPT35_TURBO, \<lparr>available = True,
                 specialties = [CONVERSATION, TRANSLATION],
                 performance_score = 0.85\<rparr>)]
      else [])
     @ (if google_api_key then
        [(GEMINI_PRO, \<lparr>available = True,
                 specialties = [CREATIVE_WRITING, TECHNICAL_ANALYSIS],
                 performance_score = 0.90\<rparr>)]
      else [])
     @ [(LLAMA2, \<lparr>available = False,
                 specialties = [CONVERSATION, RESEARCH],
                 performance_score = 0.80\<rparr>),
        (T5, \<lparr>available = False,
                 specialties = [TRANSLATION, CONTENT_GENERATION],
                 performance_score = 0.75\<rparr>)]"

text \<open>
  The exceptions the engine's own code can raise, and the one an external service raises
  (any subclass of \<open>Exception\<close>, with the text \<open>str(e)\<close> gives).
\<close>

datatype exn = IndexError | KeyError str | ServiceError str

fun exn_str :: "exn \<Rightarrow> str" where
  "exn_str IndexError = asc ''list index out of range''"
| "exn_str (KeyError k) = asc [CHR 0x27] @ k @ asc [CHR 0x27]"
| "exn_str (ServiceError msg) = msg"

definition suitable :: "TaskType \<Rightarrow> model_info \<Rightarrow> bool" where
  "suitable task_type info \<longleftrightarrow> available info \<and> task_type \<in> set (specialties info)"

text \<open>
  \<open>_select_best_model\<close>. \<open>list(self.models.keys())[0]\<close> raises \<open>IndexError\<close> on an empty
  registry.
\<close>

definition select_best_model :: "registry \<Rightarrow> TaskType \<Rightarrow> exn + AIModel" where
  "select_best_model models task_type =
     (let suitable_models =
            map (\<lambda>(model, info). (model, performance_score info))
              (filter (\<lambda>(model, info). suitable task_type info) models)
      in case py_max snd suitable_models of
           Some (model, score) \<Rightarrow> Inr model
         | None \<Rightarrow>
             if GPT35_TURBO \<in> set (map fst models) then Inr GPT35_TURBO
             else (case map fst models of [] \<Rightarrow> Inl IndexError | model # rest \<Rightarrow> Inr model))"

section \<open>Engine state\<close>

record PersonalityProfile =
  gender :: str
  name :: str
  personality_traits :: "str list"
  communication_style :: str
  expertise_areas :: "str list"
  emotional_intelligence :: real
  humor_level :: real
  formality_level :: real
  empathy_level :: real

text \<open>
  A response dict, with the keys the engine writes; a key that is absent is \<open>None\<close>.
\<close>

record response =
  success :: "bool option"
  content :: "str option"
  model_used :: "str option"
  task_type :: "str option"
  tokens_used :: "nat option"
  error :: "str option"
  fallback_response :: "str option"
  personality_applied :: "bool option"
  personality_name :: "str option"

definition empty_response :: response where
  "empty_response =
     \<lparr>success = None, content = None, model_used = None, task_type = None,
      tokens_used = None, error = None, fallback_response = None,
      personality_applied = None, personality_name = None\<rparr>"

text \<open>One entry of \<open>conversation_history\<close>.\<close>

record entry =
  entry_timestamp :: str
  entry_user_input :: str
  entry_response :: response
  entry_task_type :: str
  entry_model_used :: str
  entry_success :: bool

record engine =
  models :: registry
  personality :: "PersonalityProfile option"
  conversation_history :: "entry list"

text \<open>The engine after \<open>__init__\<close>.\<close>

definition new_engine :: "bool \<Rightarrow> bool \<Rightarrow> engine" where
  "new_engine openai_api_key google_api_key =
     \<lparr>models = initialize_models openai_api_key google_api_key,
      personality = None,
      conversation_history = []\<rparr>"

section \<open>The world outside the engine\<close>

datatype 'a outcome = Raises str | Returns 'a

datatype role = System | User | Assistant

record chat_request =
  req_model :: str
  req_messages :: "(role \<times> str) list"
  req_max_tokens :: nat
  req_temperature :: real
  req_top_p :: real

text \<open>What \<open>openai.ChatCompletion.acreate\<close> returns: the message texts of \<open>choices\<close> and
  \<open>usage.total_tokens\<close>, when the reply has a \<open>usage\<close> attribute.\<close>

record chat_completion =
  choices :: "str list"
  usage :: "nat option"

text \<open>A request that reached an external service.\<close>

datatype call = OpenAI chat_request | Gemini str

text \<open>
  Everything one request takes from outside the engine: \<open>str.lower\<close>, the two services,
  the clock, the draws of \<open>random.random()\<close> and \<open>random.choice\<close> at each place that
  draws, and the wording of the system prompts (\<open>prompt_text\<close>, the table
  \<open>system_prompts\<close>, and \<open>personality_info\<close>, the f-string of the same name), on which
  nothing below depends.
\<close>

record env =
  lower :: "str \<Rightarrow> str"
  acreate :: "chat_request \<Rightarrow> chat_completion outcome"
  generate_content :: "str \<Rightarrow> str outcome"
  now :: str
  starter_draw :: real
  starter_choice :: nat
  empathy_draw :: real
  empathy_choice :: nat
  prompt_text :: "TaskType \<Rightarrow> str"
  personality_info :: "PersonalityProfile \<Rightarrow> str"

section \<open>Dispatch\<close>

text \<open>
  The history replay of \<open>_process_with_openai\<close>: \<open>entry["response"]["content"]\<close> raises
  \<open>KeyError\<close> on a recorded response without content.
\<close>

fun replay :: "entry list \<Rightarrow> exn + (role \<times> str) list" where
  "replay [] = Inr []"
| "replay (e # es) =
     (case content (entry_response e) of
        None \<Rightarrow> Inl (KeyError (asc ''content''))
      | Some c \<Rightarrow>
          (case replay es of
             Inl x \<Rightarrow> Inl x
           | Inr ms \<Rightarrow> Inr ((User, entry_user_input e) # (Assistant, c) # ms)))"

definition prompted :: "TaskType list" where
  "prompted = [CONVERSATION, FINANCIAL_ADVICE, PSYCHOLOGICAL_SUPPORT, CREATIVE_WRITING,
               MEDITATION, RESEARCH]"

text \<open>
  \<open>_process_with_openai\<close>: the result or the exception that leaves the function, and the
  calls made. The replayed turns are inserted before the last message.
\<close>

definition process_with_openai ::
  "env \<Rightarrow> engine \<Rightarrow> AIModel \<Rightarrow> str \<Rightarrow> TaskType \<Rightarrow> (exn + response) \<times> call list" where
  "process_with_openai w eng model user_input task =
     (let system_prompt =
            prompt_text w (if task \<in> set prompted then task else CONVERSATION)
            @ (case personality eng of None \<Rightarrow> [] | Some p \<Rightarrow> personality_info w p);
          recent_history =
            drop (length (conversation_history eng) - 5) (conversation_history eng)
      in case replay recent_history of
           Inl x \<Rightarrow> (Inl x, [])
         | Inr turns \<Rightarrow>
             (let request =
                    \<lparr>req_model = AIModel_value model,
                     req_messages = [(System, system_prompt)] @ turns @ [(User, user_input)],
                     req_max_tokens = 1000,
                     req_temperature = (if task = CREATIVE_WRITING then 0.7 else 0.5),
                     req_top_p = 0.9\<rparr>
              in case acreate w request of
                   Raises msg \<Rightarrow> (Inl (ServiceError msg), [OpenAI request])
                 | Returns reply \<Rightarrow>
                     (case choices reply of
                        [] \<Rightarrow> (Inl IndexError, [OpenAI request])
                      | c # cs \<Rightarrow>
                          (Inr (empty_response\<lparr>
                                  success := Some True,
                                  content := Some c,
                                  model_used := Some (AIModel_value model),
                                  task_type := Some (TaskType_value task),
                                  tokens_used :=
                                    Some (case usage reply of None \<Rightarrow> 0 | Some n \<Rightarrow> n)\<rparr>),
                           [OpenAI request]))))"

text \<open>\<open>_process_with_gemini\<close>, which has a handler of its own.\<close>

definition process_with_gemini ::
  "env \<Rightarrow> str \<Rightarrow> TaskType \<Rightarrow> response \<times> call list" where
  "process_with_gemini w user_input task =
     (case generate_content w user_input of
        Returns txt \<Rightarrow>
          (empty_response\<lparr>
             success := Some True,
             content := Some txt,
             model_used := Some (asc ''gemini-pro''),
             task_type := Some (TaskType_value task)\<rparr>,
           [Gemini user_input])
      | Raises msg \<Rightarrow>
          (empty_response\<lparr>
             success := Some False,
             error := Some (asc ''Gemini error: '' @ msg)\<rparr>,
           [Gemini user_input]))"

text \<open>The apology of \<open>_process_with_model\<close>, by code points.\<close>

definition fallback_text :: str where
  "fallback_text =
     [1605, 1578, 1571, 1587, 1601, 1605, 1548, 32, 1583, 1585, 32, 1581, 1575, 1604, 32,
      1581, 1575, 1590, 1585, 32, 1605, 1588, 1705, 1604, 1740, 32, 1583, 1585, 32, 1662,
      1585, 1583, 1575, 1586, 1588, 32, 1583, 1585, 1582, 1608, 1575, 1587, 1578, 32, 1588,
      1605, 1575, 32, 1608, 1580, 1608, 1583, 32, 1583, 1575, 1585, 1583, 46]"

text \<open>
  \<open>_process_with_model\<close>. \<open>handled\<close> is its \<open>except Exception\<close> clause: an exception
  that leaves the \<open>try\<close> body becomes a result.
\<close>

definition handled :: "(exn + response) \<times> call list \<Rightarrow> response \<times> call list" where
  "handled r =
     (case r of
        (Inr result, calls) \<Rightarrow> (result, calls)
      | (Inl e, calls) \<Rightarrow>
          (empty_response\<lparr>
             success := Some False,
             error := Some (exn_str e),
             fallback_response := Some fallback_text\<rparr>,
           calls))"

definition process_with_model ::
  "env \<Rightarrow> engine \<Rightarrow> AIModel \<Rightarrow> str \<Rightarrow> TaskType \<Rightarrow> response \<times> call list" where
  "process_with_model w eng model user_input task =
     (if model \<in> set [GPT4, GPT35_TURBO] then
        handled (process_with_openai w eng model user_input task)
      else if model = GEMINI_PRO then
        process_with_gemini w user_input task
      else
        handled (process_with_openai w eng GPT35_TURBO user_input task))"

section \<open>Personality\<close>

definition greetings :: "str list" where
  "greetings = [[1587, 1604, 1575, 1605], asc ''hello'', asc ''hi'']"

definition friendly_starters :: "str list" where
  "friendly_starters =
     [[1585, 1575, 1587, 1578, 1588], [1576, 1576, 1740, 1606], [1582, 1576],
      asc ''Well'', asc ''So'']"

definition empathy_phrases :: "str list" where
  "empathy_phrases =
     [[1583, 1585, 1705, 1578, 32, 1605, 1740, 8204, 1705, 1606, 1605],
      [1581, 1587, 1578, 32, 1585, 1608, 32, 1605, 1740, 8204, 1601, 1607, 1605, 1605],
      asc ''I understand how you feel'',
      [1575, 1740, 1606, 32, 1608, 1575, 1602, 1593, 1575, 1611, 32, 1587, 1582, 1578, 1607],
      asc ''You'' @ [39] @ asc ''re not alone in this'']"

text \<open>\<open>random.choice\<close> on a non-empty list, with the draw \<open>c\<close>.\<close>

definition choice :: "'a list \<Rightarrow> nat \<Rightarrow> 'a" where
  "choice xs c = xs ! (c mod length xs)"

text \<open>
  \<open>_apply_personality\<close>, on the active profile. \<open>result.get("success")\<close> is falsy when
  the key is absent; \<open>result["content"]\<close> raises \<open>KeyError\<close> when that key is. The humor
  block draws a number and does nothing (\<open>pass\<close>).
\<close>

definition apply_personality ::
  "env \<Rightarrow> PersonalityProfile option \<Rightarrow> response \<Rightarrow> TaskType \<Rightarrow> exn + response" where
  "apply_personality w pers result task =
     (if success result = Some True then
        (case pers of
           None \<Rightarrow> Inr result
         | Some p \<Rightarrow>
             (case content result of
                None \<Rightarrow> Inl (KeyError (asc ''content''))
              | Some c0 \<Rightarrow>
                  (let c1 =
                         (if formality_level p < 0.5 then
                            (if list_ex (\<lambda>greeting. py_in greeting (lower w c0)) greetings
                             then c0
                             else if starter_draw w < 0.3
                               then choice friendly_starters (starter_choice w) @ asc '', '' @ c0
                               else c0)
                          else c0);
                       c2 =
                         (if task = PSYCHOLOGICAL_SUPPORT \<and> empathy_level p > 0.8 then
                            (if empathy_draw w < 0.4
                             then choice empathy_phrases (empathy_choice w) @ asc ''. '' @ c1
                             else c1)
                          else c1)
                   in Inr (result\<lparr>content := Some c2,
                                  personality_applied := Some True,
                                  personality_name := Some (name p)\<rparr>))))
      else Inr result)"

section \<open>Conversation history\<close>

definition make_entry ::
  "env \<Rightarrow> str \<Rightarrow> response \<Rightarrow> TaskType \<Rightarrow> AIModel \<Rightarrow> entry" where
  "make_entry w user_input resp task model =
     \<lparr>entry_timestamp = now w,
      entry_user_input = user_input,
      entry_response = resp,
      entry_task_type = TaskType_value task,
      entry_model_used = AIModel_value model,
      entry_success = (case success resp of None \<Rightarrow> False | Some b \<Rightarrow> b)\<rparr>"

text \<open>\<open>_save_to_history\<close>; \<open>xs[-100:]\<close> on more than 100 elements is the last 100.\<close>

definition save_to_history ::
  "env \<Rightarrow> engine \<Rightarrow> str \<Rightarrow> response \<Rightarrow> TaskType \<Rightarrow> AIModel \<Rightarrow> engine" where
  "save_to_history w eng user_input resp task model =
     (let history = conversation_history eng @ [make_entry w user_input resp task model]
      in eng\<lparr>conversation_history :=
               (if length history > 100 then drop (length history - 100) history
                else history)\<rparr>)"

text \<open>A run of appends, one argument tuple for each call in turn.\<close>

fun save_all ::
  "engine \<Rightarrow> (env \<times> str \<times> response \<times> TaskType \<times> AIModel) list \<Rightarrow> engine" where
  "save_all eng [] = eng"
| "save_all eng ((w, user_input, resp, task, model) # rest) =
     save_all (save_to_history w eng user_input resp task model) rest"

section \<open>Requests\<close>

text \<open>
  \<open>process_request\<close>: the result or the exception that leaves it, the engine afterwards
  and the calls made. The \<open>context\<close> argument is handed on and never read.
\<close>

definition process_request ::
  "env \<Rightarrow> engine \<Rightarrow> str \<Rightarrow> TaskType option \<Rightarrow> (exn + response) \<times> engine \<times> call list" where
  "process_request w eng user_input requested =
     (let task = (case requested of
                    None \<Rightarrow> detect_task_type (lower w) user_input
                  | Some t \<Rightarrow> t)
      in case select_best_model (models eng) task of
           Inl e \<Rightarrow> (Inl e, eng, [])
         | Inr selected_model \<Rightarrow>
             (case process_with_model w eng selected_model user_input task of
                (result, calls) \<Rightarrow>
                  (case apply_personality w (personality eng) result task of
                     Inl e \<Rightarrow> (Inl e, eng, calls)
                   | Inr personalized_result \<Rightarrow>
                       (Inr personalized_result,
                        save_to_history w eng user_input personalized_result task
                          selected_model,
                        calls))))"

text \<open>
  \<open>specialty_configs\<close> of \<open>get_specialized_response\<close>, with the task type of each key; the
  \<open>system_prompt\<close> stored beside it is never read.
\<close>

definition specialty_configs :: "(str \<times> TaskType) list" where
  "specialty_configs =
     [(asc ''financial_advisor'', FINANCIAL_ADVICE),
      (asc ''therapist'', PSYCHOLOGICAL_SUPPORT),
      (asc ''creative_writer'', CREATIVE_WRITING),
      (asc ''meditation_guide'', MEDITATION)]"

definition get_specialized_response ::
  "env \<Rightarrow> engine \<Rightarrow> str \<Rightarrow> str \<Rightarrow> (exn + response) \<times> engine \<times> call list" where
  "get_specialized_response w eng specialty query =
     (case map_of specialty_configs specialty of
        None \<Rightarrow>
          (Inr (empty_response\<lparr>success := Some False,
                                error := Some (asc ''Specialty not found'')\<rparr>),
           eng, [])
      | Some task \<Rightarrow> process_request w eng query (Some task))"

section \<open>Statistics\<close>

text \<open>\<open>d[k] = d.get(k, 0) + 1\<close> on a dict kept in insertion order.\<close>

fun count_up :: "(str \<times> nat) list \<Rightarrow> str \<Rightarrow> (str \<times> nat) list" where
  "count_up [] k = [(k, 1)]"
| "count_up ((k', n) # d) k =
     (if k' = k then (k', n + 1) # d else (k', n) # count_up d k)"

text \<open>
  The dict \<open>get_conversation_stats\<close> returns: \<open>total_conversations\<close> is always there, every
  other key is \<open>None\<close> when absent. \<open>most_used_task\<close> and \<open>most_used_model\<close>, when present,
  hold a key or Python's \<open>None\<close>.
\<close>

record stats =
  total_conversations :: nat
  task_distribution :: "(str \<times> nat) list option"
  model_usage :: "(str \<times> nat) list option"
  success_rate :: "str option"
  most_used_task :: "str option option"
  most_used_model :: "str option option"

text \<open>
  \<open>get_conversation_stats\<close>. The rate is computed and printed in floating point
  (\<open>f"{n / len * 100:.1f}%"\<close>); \<open>format_rate\<close> stands for that, given the number of
  successes and the length.
\<close>

definition get_conversation_stats :: "(nat \<Rightarrow> nat \<Rightarrow> str) \<Rightarrow> engine \<Rightarrow> stats" where
  "get_conversation_stats format_rate eng =
     (if conversation_history eng = [] then
        \<lparr>total_conversations = 0, task_distribution = None, model_usage = None,
         success_rate = None, most_used_task = None, most_used_model = None\<rparr>
      else
        (let history = conversation_history eng;
             task_counts = foldl count_up [] (map entry_task_type history);
             usage_counts = foldl count_up [] (map entry_model_used history);
             successes = length (filter entry_success history)
         in \<lparr>total_conversations = length history,
             task_distribution = Some task_counts,
             model_usage = Some usage_counts,
             success_rate = Some (format_rate successes (length history)),
             most_used_task =
               Some (if task_counts \<noteq> [] then map_option fst (py_max snd task_counts)
                     else None),
             most_used_model =
               Some (if usage_counts \<noteq> [] then map_option fst (py_max snd usage_counts)
                     else None)\<rparr>))"

section \<open>The counting rule of the specification\<close>

text \<open>
  The specification scores a category by occurrences: every position at which a trigger
  phrase starts in the lower-cased input counts, overlapping ones too, so a phrase that
  appears twice counts twice.
\<close>

fun occurrences :: "str \<Rightarrow> str \<Rightarrow> nat" where
  "occurrences kw [] = 0"
| "occurrences kw (c # cs) = (if prefix kw (c # cs) then 1 else 0) + occurrences kw cs"

definition spec_score :: "str list \<Rightarrow> str \<Rightarrow> nat" where
  "spec_score keywords input_lower = sum_list (map (\<lambda>kw. occurrences kw input_lower) keywords)"

section \<open>A sample world\<close>

text \<open>
  A world in which both services answer, as the mocks of the unit tests do, used to
  evaluate the engine on concrete requests.
\<close>

definition demo_env :: env where
  "demo_env =
     \<lparr>lower = ascii_lower,
      acreate = (\<lambda>request. Returns \<lparr>choices = [asc ''Test response from GPT''],
                                     usage = Some 10\<rparr>),
      generate_content = (\<lambda>user_input. Returns (asc ''Test response from Gemini'')),
      now = asc ''2024-05-01T12:00:00'',
      starter_draw = 0.1,
      starter_choice = 3,
      empathy_draw = 0.9,
      empathy_choice = 0,
      prompt_text = (\<lambda>task. []),
      personality_info = (\<lambda>p. [])\<rparr>"

definition entry_of :: "env \<times> str \<times> response \<times> TaskType \<times> AIModel \<Rightarrow> entry" where
  "entry_of a =
     (case a of (w, user_input, resp, task, model) \<Rightarrow>
        make_entry w user_input resp task model)"

definition last_100 :: "'a list \<Rightarrow> 'a list" where
  "last_100 xs = drop (length xs - 100) xs"

definition keywords_of :: "TaskType \<Rightarrow> str list" where
  "keywords_of t = (case map_of task_keywords t of None \<Rightarrow> [] | Some kws \<Rightarrow> kws)"

definition category_score :: "TaskType \<Rightarrow> str \<Rightarrow> nat" where
  "category_score t input_lower = keyword_score (keywords_of t) input_lower"

definition spec_category_score :: "TaskType \<Rightarrow> str \<Rightarrow> nat" where
  "spec_category_score t input_lower = spec_score (keywords_of t) input_lower"

definition keyworded :: "TaskType list" where
  "keyworded = [FINANCIAL_ADVICE, PSYCHOLOGICAL_SUPPORT, CREATIVE_WRITING, TRANSLATION,
                MEDITATION, RESEARCH]"

text \<open>
  The profile \<open>setup_personality\<close> stores for the personality type \<open>friendly\<close>, with a
  given gender tag and name.
\<close>

definition friendly_profile :: "str \<Rightarrow> str \<Rightarrow> PersonalityProfile" where
  "friendly_profile gender_tag given_name =
     \<lparr>gender = gender_tag,
      name = given_name,
      personality_traits =
        [[1583, 1608, 1587, 1578, 1575, 1606, 1607], [1605, 1607, 1585, 1576, 1575, 1606],
         [1589, 1576, 1608, 1585], [1705, 1605, 1705, 8204, 1705, 1575, 1585]],
      communication_style = [1711, 1585, 1605, 32, 1608, 32, 1589, 1605, 1740, 1605, 1740],
      expertise_areas =
        [[1605, 1705, 1575, 1604, 1605, 1607, 32, 1593, 1605, 1608, 1605, 1740],
         [1605, 1588, 1575, 1608, 1585, 1607],
         [1578, 1608, 1604, 1740, 1583, 32, 1605, 1581, 1578, 1608, 1575],
         [1578, 1581, 1604, 1740, 1604, 32, 1605, 1575, 1604, 1740],
         [1581, 1605, 1575, 1740, 1578, 32, 1585, 1608, 1575, 1606, 1740],
         [1570, 1605, 1608, 1586, 1588],
         [1587, 1585, 1711, 1585, 1605, 1740]],
      emotional_intelligence = 0.9,
      humor_level = 0.7,
      formality_level = 0.3,
      empathy_level = 0.9\<rparr>"


text \<open>
  What the empathy block of \<open>_apply_personality\<close> puts in front of the text, and the
  annotations it ends with.
\<close>

definition empathy_prefix :: "env \<Rightarrow> PersonalityProfile \<Rightarrow> TaskType \<Rightarrow> str" where
  "empathy_prefix w p task =
     (if task = PSYCHOLOGICAL_SUPPORT \<and> empathy_level p > 0.8 \<and> empathy_draw w < 0.4
      then choice empathy_phrases (empathy_choice w) @ asc ''. '' else [])"

definition annotated :: "PersonalityProfile \<Rightarrow> str \<Rightarrow> response \<Rightarrow> response" where
  "annotated p c result =
     result\<lparr>content := Some c, personality_applied := Some True,
             personality_name := Some (name p)\<rparr>"

text \<open>The result of \<open>get_specialized_response\<close> for an unknown key.\<close>

definition not_found :: response where
  "not_found = empty_response\<lparr>success := Some False,
                               error := Some (asc ''Specialty not found'')\<rparr>"

text \<open>
  The default adapter is available: GPT-3.5-Turbo is in the registry and flagged so.
\<close>

definition default_available :: "registry \<Rightarrow> bool" where
  "default_available reg =
     (case map_of reg GPT35_TURBO of None \<Rightarrow> False | Some info \<Rightarrow> available info)"




section \<open>The history keeps the last 100 entries\<close>

lemma save_to_history_last_100:
  "conversation_history (save_to_history w eng u r t m) =
     last_100 (conversation_history eng @ [make_entry w u r t m])"
  by (simp add: save_to_history_def last_100_def Let_def)

lemma last_100_length: "length (last_100 xs) \<le> 100"
  by (simp add: last_100_def)

lemma last_100_append: "last_100 (last_100 xs @ ys) = last_100 (xs @ ys)"
proof (cases "length xs \<le> 100")
  case True
  then show ?thesis by (simp add: last_100_def)
next
  case False
  define k where "k = length xs - 100"
  have k: "k \<le> length xs" "length xs - k = 100" "length xs + length ys - 100 = length ys + k"
    using False by (simp_all add: k_def)
  have "last_100 (xs @ ys) = drop (length ys) (drop k (xs @ ys))"
    by (simp only: last_100_def drop_drop length_append k(3))
  also have "\<dots> = drop (length ys) (drop k xs @ ys)"
    using k(1) by simp
  also have "\<dots> = last_100 (drop k xs @ ys)"
    by (simp add: last_100_def k(2))
  finally show ?thesis by (simp add: last_100_def k_def)
qed

lemma save_all_last_100:
  "conversation_history (save_all eng args) =
     (if args = [] then conversation_history eng
      else last_100 (conversation_history eng @ map entry_of args))"
proof (induction args arbitrary: eng)
  case Nil
  show ?case by simp
next
  case (Cons a args)
  obtain w u r t m where a: "a = (w, u, r, t, m)" by (cases a) auto
  show ?case
  proof (cases "args = []")
    case True
    then show ?thesis by (simp add: a save_to_history_last_100 entry_of_def)
  next
    case False
    have "last_100 (last_100 (conversation_history eng @ [entry_of a]) @ map entry_of args)
          = last_100 ((conversation_history eng @ [entry_of a]) @ map entry_of args)"
      by (rule last_100_append)
    then show ?thesis using False
      by (simp add: a Cons.IH save_to_history_last_100 entry_of_def)
  qed
qed

text \<open>
  C4. After every append the history holds at most 100 entries, whatever it held before;
  and 150 appends in a row leave exactly the entries of the last 100 of them, in the order
  they were appended.
\<close>

theorem history_bounded_fifo:
  "length (conversation_history (save_to_history w eng u r t m)) \<le> 100 \<and>
   (length args = 150 \<longrightarrow>
      conversation_history (save_all eng args) = map entry_of (drop 50 args))"
proof -
  have "length (conversation_history (save_to_history w eng u r t m)) \<le> 100"
    by (simp add: save_to_history_last_100 last_100_length)
  moreover have "conversation_history (save_all eng args) = map entry_of (drop 50 args)"
    if "length args = 150"
  proof -
    from that have "args \<noteq> []" by auto
    then show ?thesis using that
      by (simp add: save_all_last_100 last_100_def drop_map)
  qed
  ultimately show ?thesis by blast
qed

theorem history_bounded_fifo_witness:
  "length (conversation_history
             (save_to_history demo_env (new_engine True True) (asc ''hi'') empty_response
                CONVERSATION GPT4)) \<le> 100 \<and>
   length (map (\<lambda>i. (demo_env, [i], empty_response, CONVERSATION, GPT4)) [0..<150]) = 150 \<and>
   conversation_history
     (save_all (new_engine True True)
        (map (\<lambda>i. (demo_env, [i], empty_response, CONVERSATION, GPT4)) [0..<150])) =
   map (\<lambda>i. make_entry demo_env [i] empty_response CONVERSATION GPT4) [50..<150]"
  using history_bounded_fifo
    [of demo_env "new_engine True True" "asc ''hi''" empty_response CONVERSATION GPT4
        "map (\<lambda>i. (demo_env, [i], empty_response, CONVERSATION, GPT4)) [0..<150]"]
  by (simp add: drop_map entry_of_def del: upt_rec_numeral)

section \<open>The leftmost greatest element\<close>


lemma max_from_split:
  "max_from f b xs = m \<Longrightarrow>
   \<exists>pre post. b # xs = pre @ m # post \<and>
     (\<forall>x\<in>set pre. f x < f m) \<and> (\<forall>x\<in>set post. f x \<le> f m)"
proof (induction xs arbitrary: b)
  case Nil
  then have "[b] = [] @ m # [] \<and> (\<forall>x\<in>set []. f x < f m) \<and> (\<forall>x\<in>set []. f x \<le> f m)"
    by simp
  then show ?case by blast
next
  case (Cons x xs)
  show ?case
  proof (cases "f b < f x")
    case True
    with Cons.prems have "max_from f x xs = m" by simp
    from Cons.IH [OF this] obtain pre post where
      s: "x # xs = pre @ m # post"
      and lt: "\<forall>y\<in>set pre. f y < f m"
      and le: "\<forall>y\<in>set post. f y \<le> f m" by blast
    have "f x \<le> f m"
    proof (cases pre)
      case Nil
      with s show ?thesis by simp
    next
      case (Cons p ps)
      with s lt show ?thesis by auto
    qed
    with True have "f b < f m" by simp
    with s lt le have
      "b # x # xs = (b # pre) @ m # post \<and> (\<forall>y\<in>set (b # pre). f y < f m) \<and>
       (\<forall>y\<in>set post. f y \<le> f m)"
      by simp
    then show ?thesis by blast
  next
    case False
    with Cons.prems have "max_from f b xs = m" by simp
    from Cons.IH [OF this] obtain pre post where
      s: "b # xs = pre @ m # post"
      and lt: "\<forall>y\<in>set pre. f y < f m"
      and le: "\<forall>y\<in>set post. f y \<le> f m" by blast
    show ?thesis
    proof (cases pre)
      case Nil
      with s have "b = m" "xs = post" by simp_all
      with le False have
        "b # x # xs = [] @ m # (x # post) \<and> (\<forall>y\<in>set []. f y < f m) \<and>
         (\<forall>y\<in>set (x # post). f y \<le> f m)"
        by auto
      then show ?thesis by blast
    next
      case (Cons p ps)
      with s have b: "p = b" "xs = ps @ m # post" by simp_all
      with lt Cons have "f b < f m" by simp
      with False have "f x < f m" by simp
      with b lt le Cons have
        "b # x # xs = (b # x # ps) @ m # post \<and> (\<forall>y\<in>set (b # x # ps). f y < f m) \<and>
         (\<forall>y\<in>set post. f y \<le> f m)"
        by auto
      then show ?thesis by blast
    qed
  qed
qed

lemma py_max_None: "py_max f xs = None \<longleftrightarrow> xs = []"
  by (cases xs) simp_all

lemma py_max_split:
  assumes "py_max f xs = Some m"
  shows "\<exists>pre post. xs = pre @ m # post \<and> (\<forall>x\<in>set pre. f x < f m) \<and>
           (\<forall>x\<in>set post. f x \<le> f m)"
proof (cases xs)
  case Nil
  with assms show ?thesis by simp
next
  case (Cons b ys)
  with assms have "max_from f b ys = m" by simp
  from max_from_split [OF this] Cons show ?thesis by simp
qed

lemma py_max_greatest:
  assumes "py_max f xs = Some m"
  shows "m \<in> set xs \<and> (\<forall>x\<in>set xs. f x \<le> f m)"
proof -
  from py_max_split [OF assms] obtain pre post where
    "xs = pre @ m # post" "\<forall>x\<in>set pre. f x < f m" "\<forall>x\<in>set post. f x \<le> f m" by blast
  then show ?thesis by (auto simp: less_imp_le)
qed

lemma filter_eq_split:
  "filter P ys = us @ x # vs \<Longrightarrow>
     \<exists>us' vs'. ys = us' @ x # vs' \<and> filter P us' = us \<and> filter P vs' = vs \<and> P x"
proof (induction us arbitrary: ys)
  case Nil
  then have "filter P ys = x # vs" by simp
  from filter_eq_ConsD [OF this] obtain a b where
    "ys = a @ x # b" "\<forall>u\<in>set a. \<not> P u" "P x" "vs = filter P b" by blast
  then have "ys = a @ x # b \<and> filter P a = [] \<and> filter P b = vs \<and> P x" by simp
  then show ?case by blast
next
  case (Cons u us)
  then have "filter P ys = u # (us @ x # vs)" by simp
  from filter_eq_ConsD [OF this] obtain a b where
    ab: "ys = a @ u # b" "\<forall>z\<in>set a. \<not> P z" "P u" "us @ x # vs = filter P b" by blast
  from Cons.IH [of b] ab(4) obtain us' vs' where
    "b = us' @ x # vs'" "filter P us' = us" "filter P vs' = vs" "P x" by auto
  with ab have "ys = (a @ u # us') @ x # vs' \<and> filter P (a @ u # us') = u # us \<and>
      filter P vs' = vs \<and> P x" by simp
  then show ?case by blast
qed


lemma py_max_map_filter_split:
  assumes "py_max snd (map g (filter P ys)) = Some ms"
  shows "\<exists>pre e post. ys = pre @ e # post \<and> ms = g e \<and> P e \<and>
           (\<forall>x\<in>set pre. P x \<longrightarrow> snd (g x) < snd (g e)) \<and>
           (\<forall>x\<in>set post. P x \<longrightarrow> snd (g x) \<le> snd (g e))"
proof -
  from py_max_split [OF assms] obtain pre1 post1 where
    s1: "map g (filter P ys) = pre1 @ ms # post1"
    and lt: "\<forall>x\<in>set pre1. snd x < snd ms"
    and le: "\<forall>x\<in>set post1. snd x \<le> snd ms" by blast
  from s1 obtain us ws where
    s2: "filter P ys = us @ ws" "pre1 = map g us" "ms # post1 = map g ws"
    by (auto simp: map_eq_append_conv)
  from s2(3) obtain e vs where ws: "ws = e # vs" "ms = g e" "post1 = map g vs"
    by (cases ws) auto
  from s2(1) ws(1) have "filter P ys = us @ e # vs" by simp
  from filter_eq_split [OF this] obtain pre post where
    s3: "ys = pre @ e # post" "filter P pre = us" "filter P post = vs" "P e" by blast
  have "\<forall>x\<in>set pre. P x \<longrightarrow> snd (g x) < snd (g e)"
  proof (intro ballI impI)
    fix x assume "x \<in> set pre" "P x"
    then have "x \<in> set us" using s3(2) by auto
    then have "g x \<in> set pre1" using s2(2) by simp
    with lt ws(2) show "snd (g x) < snd (g e)" by auto
  qed
  moreover have "\<forall>x\<in>set post. P x \<longrightarrow> snd (g x) \<le> snd (g e)"
  proof (intro ballI impI)
    fix x assume "x \<in> set post" "P x"
    then have "x \<in> set vs" using s3(3) by auto
    then have "g x \<in> set post1" using ws(3) by simp
    with le ws(2) show "snd (g x) \<le> snd (g e)" by auto
  qed
  ultimately show ?thesis using s3(1,4) ws(2) by blast
qed

text \<open>
  C2. When the registry holds an adapter that is available and lists the category among
  its specialties, \<open>_select_best_model\<close> returns such an adapter; no adapter of that kind
  has a greater performance score, and those registered before it have a smaller one.
\<close>

theorem select_best_model_best:
  assumes "\<exists>e\<in>set reg. suitable C (snd e)"
  shows "\<exists>m info pre post.
           select_best_model reg C = Inr m \<and>
           reg = pre @ (m, info) # post \<and>
           available info \<and> C \<in> set (specialties info) \<and>
           (\<forall>e\<in>set pre. suitable C (snd e) \<longrightarrow> performance_score (snd e) < performance_score info) \<and>
           (\<forall>e\<in>set post. suitable C (snd e) \<longrightarrow> performance_score (snd e) \<le> performance_score info)"
proof -
  let ?P = "\<lambda>(model, info). suitable C info"
  let ?g = "\<lambda>(model, info). (model, performance_score info)"
  from assms have "filter ?P reg \<noteq> []"
    by (auto simp: filter_empty_conv split: prod.splits)
  then have "py_max snd (map ?g (filter ?P reg)) \<noteq> None"
    by (simp add: py_max_None)
  then obtain ms where ms: "py_max snd (map ?g (filter ?P reg)) = Some ms" by blast
  from py_max_map_filter_split [OF ms] obtain pre e post where
    s: "reg = pre @ e # post" "ms = ?g e" "?P e"
    and lt: "\<forall>x\<in>set pre. ?P x \<longrightarrow> snd (?g x) < snd (?g e)"
    and le: "\<forall>x\<in>set post. ?P x \<longrightarrow> snd (?g x) \<le> snd (?g e)" by blast
  obtain m info where e: "e = (m, info)" by (cases e)
  from ms s(2) e have "select_best_model reg C = Inr m"
    by (simp add: select_best_model_def)
  moreover from s(1) e have "reg = pre @ (m, info) # post" by simp
  moreover from s(3) e have "available info" "C \<in> set (specialties info)"
    by (simp_all add: suitable_def)
  moreover from lt e have
    "\<forall>e\<in>set pre. suitable C (snd e) \<longrightarrow> performance_score (snd e) < performance_score info"
    by (auto split: prod.splits)
  moreover from le e have
    "\<forall>e\<in>set post. suitable C (snd e) \<longrightarrow> performance_score (snd e) \<le> performance_score info"
    by (auto split: prod.splits)
  ultimately show ?thesis by blast
qed

theorem select_best_model_best_witness:
  "(\<exists>e\<in>set (initialize_models True True). suitable CONVERSATION (snd e)) \<and>
   select_best_model (initialize_models True True) CONVERSATION = Inr GPT4 \<and>
   (\<exists>m info pre post.
      select_best_model (initialize_models True True) CONVERSATION = Inr m \<and>
      initialize_models True True = pre @ (m, info) # post \<and>
      available info \<and> CONVERSATION \<in> set (specialties info) \<and>
      (\<forall>e\<in>set pre. suitable CONVERSATION (snd e) \<longrightarrow>
         performance_score (snd e) < performance_score info) \<and>
      (\<forall>e\<in>set post. suitable CONVERSATION (snd e) \<longrightarrow>
         performance_score (snd e) \<le> performance_score info))"
proof -
  have h: "\<exists>e\<in>set (initialize_models True True). suitable CONVERSATION (snd e)"
    by (simp add: initialize_models_def suitable_def)
  have "select_best_model (initialize_models True True) CONVERSATION = Inr GPT4"
    by (simp add: select_best_model_def initialize_models_def suitable_def)
  with h select_best_model_best [OF h] show ?thesis by blast
qed

section \<open>The fallback of model selection\<close>

lemma select_none_suitable:
  assumes "\<forall>e\<in>set reg. \<not> suitable C (snd e)"
  shows "select_best_model reg C =
           (if GPT35_TURBO \<in> set (map fst reg) then Inr GPT35_TURBO
            else case reg of [] \<Rightarrow> Inl IndexError | e # rest \<Rightarrow> Inr (fst e))"
proof -
  from assms have "filter (\<lambda>(model, info). suitable C info) reg = []"
    by (auto simp: filter_empty_conv)
  then show ?thesis
    by (cases reg) (simp_all add: select_best_model_def)
qed

lemma select_never_raises:
  assumes "reg \<noteq> []"
  shows "\<exists>m. select_best_model reg C = Inr m"
proof (cases "py_max snd (map (\<lambda>(model, info). (model, performance_score info))
                (filter (\<lambda>(model, info). suitable C info) reg))")
  case None
  with assms show ?thesis
    by (cases reg) (auto simp: select_best_model_def)
next
  case (Some ms)
  then show ?thesis
    by (cases ms) (simp add: select_best_model_def)
qed

lemma default_available_initialized:
  "default_available (initialize_models openai google) \<longleftrightarrow> openai"
  by (cases openai; cases google) (simp_all add: default_available_def initialize_models_def)

text \<open>
  C6. On a registry \<open>_initialize_models\<close> builds, when no adapter is both available and
  specialised for the category, \<open>_select_best_model\<close> returns GPT-3.5-Turbo when that
  adapter is available, and the first adapter of the registry, whatever its flag, when
  it is not. On a non-empty registry the selection never raises.
\<close>

theorem select_best_model_default_or_first:
  assumes "\<forall>e\<in>set (initialize_models openai google). \<not> suitable C (snd e)"
  shows "(default_available (initialize_models openai google) \<longrightarrow>
            select_best_model (initialize_models openai google) C = Inr GPT35_TURBO) \<and>
         (\<not> default_available (initialize_models openai google) \<longrightarrow>
            (case initialize_models openai google of
               [] \<Rightarrow> False
             | e # rest \<Rightarrow> select_best_model (initialize_models openai google) C = Inr (fst e))) \<and>
         (reg \<noteq> [] \<longrightarrow> (\<exists>m. select_best_model reg C' = Inr m))"
proof -
  have "map fst (initialize_models openai google) =
          (if openai then [GPT4, GPT35_TURBO] else []) @ (if google then [GEMINI_PRO] else [])
          @ [LLAMA2, T5]"
    by (simp add: initialize_models_def)
  then have "(default_available (initialize_models openai google) \<longrightarrow>
            select_best_model (initialize_models openai google) C = Inr GPT35_TURBO) \<and>
         (\<not> default_available (initialize_models openai google) \<longrightarrow>
            (case initialize_models openai google of
               [] \<Rightarrow> False
             | e # rest \<Rightarrow> select_best_model (initialize_models openai google) C = Inr (fst e)))"
    unfolding select_none_suitable [OF assms] default_available_initialized
    by (cases "initialize_models openai google") (auto split: if_splits)
  with select_never_raises [of reg C'] show ?thesis by blast
qed

theorem select_best_model_default_or_first_witness:
  "\<not> list_ex (\<lambda>e. suitable MEDITATION (snd e)) (initialize_models True False) \<and>
   default_available (initialize_models True False) \<and>
   select_best_model (initialize_models True False) MEDITATION = Inr GPT35_TURBO \<and>
   \<not> list_ex (\<lambda>e. suitable MEDITATION (snd e)) (initialize_models False False) \<and>
   \<not> default_available (initialize_models False False) \<and>
   map fst (initialize_models False False) = [LLAMA2, T5] \<and>
   select_best_model (initialize_models False False) MEDITATION = Inr LLAMA2"
proof -
  have n1: "\<not> list_ex (\<lambda>e. suitable MEDITATION (snd e)) (initialize_models True False)"
    by (simp add: initialize_models_def suitable_def)
  have n2: "\<not> list_ex (\<lambda>e. suitable MEDITATION (snd e)) (initialize_models False False)"
    by (simp add: initialize_models_def suitable_def)
  from n1 have h1: "\<forall>e\<in>set (initialize_models True False). \<not> suitable MEDITATION (snd e)"
    by (simp add: list_ex_iff)
  from n2 have h2: "\<forall>e\<in>set (initialize_models False False). \<not> suitable MEDITATION (snd e)"
    by (simp add: list_ex_iff)
  have k1: "default_available (initialize_models True False)"
    by (simp add: default_available_def initialize_models_def)
  have k2: "\<not> default_available (initialize_models False False)"
    by (simp add: default_available_def initialize_models_def)
  have f: "map fst (initialize_models False False) = [LLAMA2, T5]"
    by (simp add: initialize_models_def)
  have "select_best_model (initialize_models True False) MEDITATION = Inr GPT35_TURBO"
    using select_best_model_default_or_first [OF h1] k1 by blast
  moreover have "select_best_model (initialize_models False False) MEDITATION = Inr LLAMA2"
    using select_best_model_default_or_first [OF h2, of "[]" MEDITATION] k2
    by (simp add: initialize_models_def)
  ultimately show ?thesis using n1 n2 k1 k2 f by blast
qed

section \<open>Classification\<close>

lemma py_in_sublist: "py_in kw s \<longleftrightarrow> sublist kw s"
  by (induction s) (simp_all add: sublist_Cons_right)

lemma keyword_score_length:
  "keyword_score kws s = length (filter (\<lambda>kw. py_in kw s) kws)"
  by (simp add: keyword_score_def sum_list_triv)

lemma keyword_score_card:
  assumes "distinct kws"
  shows "keyword_score kws s = card {kw \<in> set kws. sublist kw s}"
proof -
  from assms have d: "distinct (filter (\<lambda>kw. py_in kw s) kws)" by simp
  have "{kw \<in> set kws. sublist kw s} = set (filter (\<lambda>kw. py_in kw s) kws)"
    by (auto simp: py_in_sublist)
  then have "card {kw \<in> set kws. sublist kw s} = card (set (filter (\<lambda>kw. py_in kw s) kws))"
    by (rule arg_cong)
  also have "\<dots> = length (filter (\<lambda>kw. py_in kw s) kws)"
    by (rule distinct_card [OF d])
  finally show ?thesis by (simp add: keyword_score_length)
qed

lemma map_fst_task_keywords: "map fst task_keywords = keyworded"
  by (simp add: task_keywords_def keyworded_def)

lemma keywords_of_unkeyworded: "t \<notin> set keyworded \<Longrightarrow> keywords_of t = []"
  by (simp add: keywords_of_def map_of_eq_None_iff [THEN iffD2] map_fst_task_keywords [symmetric])

lemma category_score_unkeyworded: "t \<notin> set keyworded \<Longrightarrow> category_score t s = 0"
  by (simp add: category_score_def keywords_of_unkeyworded keyword_score_def)

lemma scores_by_key:
  "distinct (map fst tk) \<Longrightarrow>
   map (\<lambda>(t, kws). (t, f kws)) tk =
   map (\<lambda>t. (t, f (case map_of tk t of None \<Rightarrow> [] | Some kws \<Rightarrow> kws))) (map fst tk)"
proof (induction tk)
  case Nil
  show ?case by simp
next
  case (Cons a tk)
  obtain t kws where a: "a = (t, kws)" by (cases a)
  from Cons.prems a have t: "t \<notin> fst ` set tk" and d: "distinct (map fst tk)" by simp_all
  have "map (\<lambda>t'. (t', f (case map_of (a # tk) t' of None \<Rightarrow> [] | Some kws \<Rightarrow> kws))) (map fst tk)
      = map (\<lambda>t'. (t', f (case map_of tk t' of None \<Rightarrow> [] | Some kws \<Rightarrow> kws))) (map fst tk)"
    using t by (intro map_cong) (auto simp: a)
  with Cons.IH [OF d] show ?case by (simp add: a)
qed

lemma task_scores_by_category:
  "task_scores s =
     filter (\<lambda>(t, n). 0 < n) (map (\<lambda>t. (t, category_score t s)) keyworded)"
proof -
  have "distinct (map fst task_keywords)"
    by (simp add: map_fst_task_keywords keyworded_def)
  from scores_by_key [OF this, of "\<lambda>kws. keyword_score kws s"] show ?thesis
    by (simp add: task_scores_def category_score_def keywords_of_def map_fst_task_keywords
          case_prod_unfold)
qed

lemma in_task_scores:
  "x \<in> set (task_scores s) \<longleftrightarrow> (\<exists>t\<in>set keyworded. x = (t, category_score t s) \<and> 0 < category_score t s)"
  by (auto simp: task_scores_by_category)

lemma detect_unique_max:
  assumes "\<forall>c. c \<noteq> a \<longrightarrow> category_score c (to_lower user_input) < category_score a (to_lower user_input)"
  shows "detect_task_type to_lower user_input = a"
proof -
  let ?s = "to_lower user_input"
  obtain b :: TaskType where "b \<noteq> a" by (cases a) auto
  with assms have pos: "0 < category_score a ?s" by (metis not_less_zero neq0_conv)
  then have "a \<in> set keyworded" using category_score_unkeyworded by fastforce
  with pos have mem: "(a, category_score a ?s) \<in> set (task_scores ?s)"
    by (simp add: in_task_scores)
  then have "py_max snd (task_scores ?s) \<noteq> None" by (auto simp: py_max_None)
  then obtain m where m: "py_max snd (task_scores ?s) = Some m" by blast
  from py_max_greatest [OF m] mem have
    "m \<in> set (task_scores ?s)" "category_score a ?s \<le> snd m" by auto
  then obtain t where "m = (t, category_score t ?s)" "category_score a ?s \<le> category_score t ?s"
    by (auto simp: in_task_scores)
  with assms have "m = (a, category_score a ?s)" by (metis not_le)
  with m show ?thesis by (simp add: detect_task_type_def)
qed

text \<open>
  C1, with the score the code computes. When the input holds trigger phrases of two
  categories and of no other, and the two scores differ, \<open>_detect_task_type\<close> returns the
  category with the higher score; the score of a category is the number of its trigger
  phrases that occur in the lower-cased input.
\<close>

theorem detect_higher_score:
  assumes "a \<noteq> b"
    and "category_score b (to_lower user_input) < category_score a (to_lower user_input)"
    and "0 < category_score b (to_lower user_input)"
    and "\<forall>c. c \<noteq> a \<and> c \<noteq> b \<longrightarrow> category_score c (to_lower user_input) = 0"
  shows "detect_task_type to_lower user_input = a"
proof (rule detect_unique_max, intro allI impI)
  fix c assume "c \<noteq> a"
  with assms show "category_score c (to_lower user_input) < category_score a (to_lower user_input)"
    by (cases "c = b") auto
qed

lemma distinct_keywords_of: "distinct (keywords_of t)"
  by (cases t) (simp_all add: keywords_of_def task_keywords_def asc_def)

lemma map_of_filter_scores:
  "map_of (filter (\<lambda>(t, n). 0 < n) (map (\<lambda>t. (t, f t)) xs)) t =
     (if t \<in> set xs \<and> 0 < f t then Some (f t) else None)"
  by (induction xs) auto

text \<open>
  C5, as the code has it. The score of a category is the number of its trigger phrases
  that occur in the lower-cased input, each phrase counted once however often it occurs;
  \<open>task_scores\<close> stores the score under the category exactly when it is positive.
\<close>

theorem category_score_counts_phrases_present:
  "category_score t s = card {kw \<in> set (keywords_of t). sublist kw s} \<and>
   map_of (task_scores s) t =
     (if 0 < category_score t s then Some (category_score t s) else None)"
proof -
  have "category_score t s = card {kw \<in> set (keywords_of t). sublist kw s}"
    by (simp add: category_score_def keyword_score_card distinct_keywords_of)
  moreover have "map_of (task_scores s) t =
     (if 0 < category_score t s then Some (category_score t s) else None)"
    using category_score_unkeyworded [of t s]
    by (auto simp: task_scores_by_category map_of_filter_scores)
  ultimately show ?thesis by blast
qed


lemmas keyword_eval =
  category_score_def spec_category_score_def keywords_of_def task_keywords_def
  keyword_score_def spec_score_def asc_def ascii_lower_def

text \<open>
  \<open>stock\<close> occurs twice in \<open>stock stock\<close>: the specification's rule counts 2, the code
  stores 1.
\<close>

theorem category_score_counts_once_counterexample:
  "task_scores (ascii_lower (asc ''stock stock'')) = [(FINANCIAL_ADVICE, 1)] \<and>
   category_score FINANCIAL_ADVICE (ascii_lower (asc ''stock stock'')) = 1 \<and>
   spec_category_score FINANCIAL_ADVICE (ascii_lower (asc ''stock stock'')) = 2"
  by (simp add: task_scores_def keyword_eval)

text \<open>
  Counted by occurrences, \<open>stock stock stock sad stress\<close> has 3 for financial advice and
  2 for psychological support; the classifier returns psychological support.
\<close>

theorem detect_spec_count_counterexample:
  "spec_category_score FINANCIAL_ADVICE (ascii_lower (asc ''stock stock stock sad stress'')) = 3 \<and>
   spec_category_score PSYCHOLOGICAL_SUPPORT (ascii_lower (asc ''stock stock stock sad stress'')) = 2 \<and>
   spec_category_score CREATIVE_WRITING (ascii_lower (asc ''stock stock stock sad stress'')) = 0 \<and>
   spec_category_score TRANSLATION (ascii_lower (asc ''stock stock stock sad stress'')) = 0 \<and>
   spec_category_score MEDITATION (ascii_lower (asc ''stock stock stock sad stress'')) = 0 \<and>
   spec_category_score RESEARCH (ascii_lower (asc ''stock stock stock sad stress'')) = 0 \<and>
   spec_category_score CONVERSATION (ascii_lower (asc ''stock stock stock sad stress'')) = 0 \<and>
   spec_category_score CONTENT_GENERATION (ascii_lower (asc ''stock stock stock sad stress'')) = 0 \<and>
   spec_category_score TECHNICAL_ANALYSIS (ascii_lower (asc ''stock stock stock sad stress'')) = 0 \<and>
   spec_category_score COMPANIONSHIP (ascii_lower (asc ''stock stock stock sad stress'')) = 0 \<and>
   detect_task_type ascii_lower (asc ''stock stock stock sad stress'') = PSYCHOLOGICAL_SUPPORT"
proof -
  have s: "ascii_lower (asc ''stock stock stock sad stress'') =
    [115, 116, 111, 99, 107, 32, 115, 116, 111, 99, 107, 32, 115, 116, 111, 99, 107, 32,
     115, 97, 100, 32, 115, 116, 114, 101, 115, 115]"
    by (simp add: asc_def ascii_lower_def)
  show ?thesis
    unfolding s detect_task_type_def Let_def
    by (simp add: task_scores_def keyword_eval)
qed

theorem detect_higher_score_witness:
  "PSYCHOLOGICAL_SUPPORT \<noteq> FINANCIAL_ADVICE \<and>
   category_score FINANCIAL_ADVICE (ascii_lower (asc ''stock sad stress'')) = 1 \<and>
   category_score PSYCHOLOGICAL_SUPPORT (ascii_lower (asc ''stock sad stress'')) = 2 \<and>
   detect_task_type ascii_lower (asc ''stock sad stress'') = PSYCHOLOGICAL_SUPPORT"
proof -
  let ?s = "ascii_lower (asc ''stock sad stress'')"
  have s: "?s = [115, 116, 111, 99, 107, 32, 115, 97, 100, 32, 115, 116, 114, 101, 115, 115]"
    by (simp add: asc_def ascii_lower_def)
  have f: "category_score FINANCIAL_ADVICE ?s = 1"
    unfolding s by (simp add: keyword_eval)
  have p: "category_score PSYCHOLOGICAL_SUPPORT ?s = 2"
    unfolding s by (simp add: keyword_eval)
  have z: "\<forall>c. c \<noteq> PSYCHOLOGICAL_SUPPORT \<and> c \<noteq> FINANCIAL_ADVICE \<longrightarrow> category_score c ?s = 0"
  proof (intro allI impI)
    fix c assume "c \<noteq> PSYCHOLOGICAL_SUPPORT \<and> c \<noteq> FINANCIAL_ADVICE"
    then show "category_score c ?s = 0"
      unfolding s by (cases c) (simp_all add: keyword_eval)
  qed
  have "detect_task_type ascii_lower (asc ''stock sad stress'') = PSYCHOLOGICAL_SUPPORT"
    using detect_higher_score [of PSYCHOLOGICAL_SUPPORT FINANCIAL_ADVICE ascii_lower
        "asc ''stock sad stress''"] f p z
    by simp
  with f p show ?thesis by simp
qed

section \<open>Personality, statistics and specialties\<close>

text \<open>
  C7. On a response whose \<open>success\<close> is not true, and on any response when no profile
  is set, \<open>_apply_personality\<close> returns the response as it is: same content, no
  annotation added.
\<close>

theorem apply_personality_noop:
  assumes "success result \<noteq> Some True \<or> pers = None"
  shows "apply_personality w pers result task = Inr result"
  using assms by (auto simp: apply_personality_def)

theorem apply_personality_noop_witness:
  "apply_personality demo_env (Some (friendly_profile (asc ''female'') (asc ''Aria'')))
     (empty_response\<lparr>success := Some False, error := Some (asc ''boom''),
                      fallback_response := Some fallback_text\<rparr>) CONVERSATION =
   Inr (empty_response\<lparr>success := Some False, error := Some (asc ''boom''),
                      fallback_response := Some fallback_text\<rparr>) \<and>
   apply_personality demo_env None
     (empty_response\<lparr>success := Some True, content := Some (asc ''It is sunny.'')\<rparr>)
     CONVERSATION =
   Inr (empty_response\<lparr>success := Some True, content := Some (asc ''It is sunny.'')\<rparr>)"
  using apply_personality_noop
     [of "empty_response\<lparr>success := Some False, error := Some (asc ''boom''),
                      fallback_response := Some fallback_text\<rparr>"
         "Some (friendly_profile (asc ''female'') (asc ''Aria''))" demo_env CONVERSATION]
    apply_personality_noop
     [of "empty_response\<lparr>success := Some True, content := Some (asc ''It is sunny.'')\<rparr>"
         None demo_env CONVERSATION]
  by (simp add: empty_response_def)

text \<open>
  C8, as the code has it. For a successful response and a profile with formality below
  0.5, the opener is suppressed exactly when the lower-cased text contains a greeting
  phrase anywhere, in particular when it starts with one; otherwise the opener is put
  in front when the draw is below 0.3 and not when it is not.
\<close>

theorem opener_suppressed_by_greeting_anywhere:
  assumes "success result = Some True" and "content result = Some c"
    and "formality_level p < 0.5"
  shows "(list_ex (\<lambda>g. sublist g (lower w c)) greetings \<longrightarrow>
            apply_personality w (Some p) result task =
              Inr (annotated p (empathy_prefix w p task @ c) result)) \<and>
         (list_ex (\<lambda>g. prefix g (lower w c)) greetings \<longrightarrow>
            apply_personality w (Some p) result task =
              Inr (annotated p (empathy_prefix w p task @ c) result)) \<and>
         (\<not> list_ex (\<lambda>g. sublist g (lower w c)) greetings \<and> starter_draw w < 0.3 \<longrightarrow>
            apply_personality w (Some p) result task =
              Inr (annotated p
                     (empathy_prefix w p task @
                      choice friendly_starters (starter_choice w) @ asc '', '' @ c) result)) \<and>
         (\<not> list_ex (\<lambda>g. sublist g (lower w c)) greetings \<and> \<not> starter_draw w < 0.3 \<longrightarrow>
            apply_personality w (Some p) result task =
              Inr (annotated p (empathy_prefix w p task @ c) result))"
proof -
  have pre: "list_ex (\<lambda>g. prefix g (lower w c)) greetings \<Longrightarrow>
             list_ex (\<lambda>g. sublist g (lower w c)) greetings"
    by (auto simp: list_ex_iff intro: prefix_imp_sublist)
  have eq: "list_ex (\<lambda>g. py_in g (lower w c)) greetings =
            list_ex (\<lambda>g. sublist g (lower w c)) greetings"
    by (simp add: py_in_sublist)
  show ?thesis
    using assms pre
    by (auto simp: apply_personality_def annotated_def empathy_prefix_def Let_def eq)
qed

text \<open>
  C9. On an empty history \<open>get_conversation_stats\<close> returns the single key
  \<open>total_conversations\<close> with 0: neither \<open>most_used_task\<close> nor \<open>most_used_model\<close> is there.
\<close>

theorem stats_of_empty_history:
  assumes "conversation_history eng = []"
  shows "get_conversation_stats format_rate eng =
           \<lparr>total_conversations = 0, task_distribution = None, model_usage = None,
            success_rate = None, most_used_task = None, most_used_model = None\<rparr>"
  using assms by (simp add: get_conversation_stats_def)

text \<open>
  C10. For a key outside the four specialties \<open>get_specialized_response\<close> returns the
  not-found result, calls no service and leaves the engine, its history included, as
  it was.
\<close>

theorem unknown_specialty_not_found:
  assumes "specialty \<notin> {asc ''financial_advisor'', asc ''therapist'', asc ''creative_writer'',
                          asc ''meditation_guide''}"
  shows "get_specialized_response w eng specialty query = (Inr not_found, eng, [])"
proof -
  from assms have "map_of specialty_configs specialty = None"
    by (simp add: specialty_configs_def)
  then show ?thesis by (simp add: get_specialized_response_def not_found_def)
qed


theorem opener_suppressed_by_greeting_anywhere_witness:
  "apply_personality demo_env (Some (friendly_profile (asc ''female'') (asc ''Aria'')))
     (empty_response\<lparr>success := Some True, content := Some (asc ''It is sunny.'')\<rparr>)
     CONVERSATION =
   Inr (annotated (friendly_profile (asc ''female'') (asc ''Aria''))
          (asc ''Well, It is sunny.'')
          (empty_response\<lparr>success := Some True, content := Some (asc ''It is sunny.'')\<rparr>)) \<and>
   apply_personality demo_env (Some (friendly_profile (asc ''female'') (asc ''Aria'')))
     (empty_response\<lparr>success := Some True, content := Some (asc ''Hello there'')\<rparr>)
     CONVERSATION =
   Inr (annotated (friendly_profile (asc ''female'') (asc ''Aria''))
          (asc ''Hello there'')
          (empty_response\<lparr>success := Some True, content := Some (asc ''Hello there'')\<rparr>))"
proof -
  let ?p = "friendly_profile (asc ''female'') (asc ''Aria'')"
  let ?r1 = "empty_response\<lparr>success := Some True, content := Some (asc ''It is sunny.'')\<rparr>"
  let ?r2 = "empty_response\<lparr>success := Some True, content := Some (asc ''Hello there'')\<rparr>"
  have f: "formality_level ?p < 0.5" by (simp add: friendly_profile_def)
  have s1: "success ?r1 = Some True" and c1: "content ?r1 = Some (asc ''It is sunny.'')"
    and s2: "success ?r2 = Some True" and c2: "content ?r2 = Some (asc ''Hello there'')"
    by simp_all
  have g1: "\<not> list_ex (\<lambda>g. sublist g (lower demo_env (asc ''It is sunny.''))) greetings"
    by (simp add: py_in_sublist [symmetric] greetings_def demo_env_def asc_def ascii_lower_def)
  have g2: "list_ex (\<lambda>g. prefix g (lower demo_env (asc ''Hello there''))) greetings"
    by (simp add: greetings_def demo_env_def asc_def ascii_lower_def)
  have d: "starter_draw demo_env < 0.3" by (simp add: demo_env_def)
  have e: "empathy_prefix demo_env ?p CONVERSATION = []" by (simp add: empathy_prefix_def)
  have w: "choice friendly_starters (starter_choice demo_env) @ asc '', '' @ asc ''It is sunny.''
           = asc ''Well, It is sunny.''"
    by (simp add: choice_def friendly_starters_def demo_env_def asc_def)
  from opener_suppressed_by_greeting_anywhere [OF s1 c1 f, of demo_env CONVERSATION] g1 d
  have "apply_personality demo_env (Some ?p) ?r1 CONVERSATION =
          Inr (annotated ?p (asc ''Well, It is sunny.'') ?r1)"
    unfolding e w [symmetric] by simp
  moreover
  from opener_suppressed_by_greeting_anywhere [OF s2 c2 f, of demo_env CONVERSATION] g2
  have "apply_personality demo_env (Some ?p) ?r2 CONVERSATION =
          Inr (annotated ?p (asc ''Hello there'') ?r2)"
    unfolding e by simp
  ultimately show ?thesis by blast
qed

text \<open>
  \<open>This is fine\<close> does not start with a greeting phrase, yet \<open>hi\<close> occurs in \<open>this\<close>: no
  draw gives it an opener.
\<close>

theorem opener_never_added_counterexample:
  "\<not> list_ex (\<lambda>g. prefix g (asc ''This is fine'')) greetings \<and>
   \<not> list_ex (\<lambda>g. prefix g (ascii_lower (asc ''This is fine''))) greetings \<and>
   formality_level (friendly_profile (asc ''female'') (asc ''Aria'')) < 0.5 \<and>
   (\<forall>d k. apply_personality (demo_env\<lparr>starter_draw := d, starter_choice := k\<rparr>)
            (Some (friendly_profile (asc ''female'') (asc ''Aria'')))
            (empty_response\<lparr>success := Some True, content := Some (asc ''This is fine'')\<rparr>)
            CONVERSATION =
          Inr (empty_response\<lparr>success := Some True, content := Some (asc ''This is fine''),
                               personality_applied := Some True,
                               personality_name := Some (asc ''Aria'')\<rparr>))"
proof -
  have s: "asc ''This is fine'' = [84, 104, 105, 115, 32, 105, 115, 32, 102, 105, 110, 101]"
    by (simp add: asc_def)
  have l: "ascii_lower [84, 104, 105, 115, 32, 105, 115, 32, 102, 105, 110, 101] =
           [116, 104, 105, 115, 32, 105, 115, 32, 102, 105, 110, 101]"
    by (simp add: ascii_lower_def)
  have g: "greetings = [[1587, 1604, 1575, 1605], [104, 101, 108, 108, 111], [104, 105]]"
    by (simp add: greetings_def asc_def)
  show ?thesis
    unfolding s
    by (simp add: apply_personality_def demo_env_def friendly_profile_def empty_response_def
          l g)
qed

theorem stats_of_empty_history_witness:
  "conversation_history (new_engine True True) = [] \<and>
   get_conversation_stats (\<lambda>successes total. asc ''0.0%'') (new_engine True True) =
     \<lparr>total_conversations = 0, task_distribution = None, model_usage = None,
      success_rate = None, most_used_task = None, most_used_model = None\<rparr>"
proof -
  have h: "conversation_history (new_engine True True) = []" by (simp add: new_engine_def)
  from stats_of_empty_history [OF h] h show ?thesis by blast
qed

theorem unknown_specialty_not_found_witness:
  "asc ''lawyer'' \<notin> {asc ''financial_advisor'', asc ''therapist'', asc ''creative_writer'',
                       asc ''meditation_guide''} \<and>
   get_specialized_response demo_env (new_engine True True) (asc ''lawyer'') (asc ''hello'') =
     (Inr not_found, new_engine True True, [])"
proof -
  have h: "asc ''lawyer'' \<notin> {asc ''financial_advisor'', asc ''therapist'',
             asc ''creative_writer'', asc ''meditation_guide''}"
    by (simp add: asc_def)
  from unknown_specialty_not_found [OF h] h show ?thesis by blast
qed

section \<open>Dispatch failures\<close>










end
